theory Spec2Isabelle
  imports Main
begin

section \<open>Go strings and errors\<close>

text \<open>
  A Go \<^verbatim>\<open>string\<close> is a sequence of bytes: \<^verbatim>\<open>len(s)\<close> counts bytes and
  \<^verbatim>\<open>s[:n]\<close> slices bytes. It is modelled as \<^typ>\<open>string\<close> (a list of 8-bit
  characters). A Go \<^verbatim>\<open>error\<close> is modelled by its message: \<open>None\<close> is
  \<^verbatim>\<open>nil\<close>, and \<open>Some m\<close> is an error whose \<^verbatim>\<open>Error()\<close> text is \<open>m\<close>.
  \<^verbatim>\<open>fmt.Errorf("ctx: %w", err)\<close> is the error with message \<open>ctx: \<close> followed
  by the message of \<^verbatim>\<open>err\<close>.
\<close>

type_synonym goerror = "string option"

text \<open>\<^verbatim>\<open>strings.HasPrefix(s, prefix)\<close>:
  \<^verbatim>\<open>len(s) >= len(prefix) && s[:len(prefix)] == prefix\<close>.\<close>

definition HasPrefix :: "string \<Rightarrow> string \<Rightarrow> bool" where
  "HasPrefix s p = (length p \<le> length s \<and> take (length p) s = p)"

section \<open>The webhook client\<close>

record Client =
  webhookURL :: string

definition webhook_prefix :: string where
  "webhook_prefix = ''https://discord.com/api/webhooks/''"

text \<open>\<^verbatim>\<open>NewClient(webhookURL string) (*Client, error)\<close> of the webhook-only client.\<close>

definition NewClient :: "string \<Rightarrow> string + Client" where
  "NewClient url =
     (if url = [] then Inl ''discord webhook URL is required''
      else if \<not> HasPrefix url webhook_prefix then
        Inl ''invalid webhook URL format, must start with https://discord.com/api/webhooks/''
      else Inr \<lparr>webhookURL = url\<rparr>)"

text \<open>
  \<^verbatim>\<open>NewClient(token, channelID string) (*Client, error)\<close> of the client with the
  legacy bot fields, the variant the entry point calls. Its \<^verbatim>\<open>isWebhook\<close> field is
  set to true on the only path that returns a client, so the record above serves for both.
\<close>

definition NewClient_legacy :: "string \<Rightarrow> string \<Rightarrow> string + Client" where
  "NewClient_legacy token channelID =
     (if token = [] \<and> channelID = [] then
        Inl ''either discord token or channel ID (webhook URL) is required''
      else if HasPrefix channelID webhook_prefix then Inr \<lparr>webhookURL = channelID\<rparr>
      else Inl ''only webhook URLs are supported in this version'')"

section \<open>Client construction\<close>

lemma HasPrefix_nonempty: "HasPrefix url webhook_prefix \<Longrightarrow> url \<noteq> []"
  by (auto simp: HasPrefix_def webhook_prefix_def)

text \<open>
  Claim C7. Client construction returns an error for every webhook URL that does not
  start with \<^verbatim>\<open>https://discord.com/api/webhooks/\<close>, and for the empty URL; it returns
  a client (holding that URL) exactly when the URL has the prefix. The same holds for the
  two-argument variant, whatever the token.
\<close>

theorem NewClient_accepts_iff_prefix:
  "(\<not> HasPrefix url webhook_prefix \<longrightarrow> isl (NewClient url))
   \<and> isl (NewClient [])
   \<and> ((\<exists>c. NewClient url = Inr c) \<longleftrightarrow> HasPrefix url webhook_prefix)
   \<and> (HasPrefix url webhook_prefix \<longrightarrow> NewClient url = Inr \<lparr>webhookURL = url\<rparr>)
   \<and> ((\<exists>c. NewClient_legacy token url = Inr c) \<longleftrightarrow> HasPrefix url webhook_prefix)"
proof -
  have ne: "HasPrefix url webhook_prefix \<Longrightarrow> url \<noteq> []"
    by (rule HasPrefix_nonempty)
  have e: "\<not> HasPrefix [] webhook_prefix"
    using HasPrefix_nonempty by blast
  show ?thesis
    using ne e by (auto simp: NewClient_def NewClient_legacy_def)
qed

theorem NewClient_accepts_iff_prefix_witness:
  "isl (NewClient ''http://example.com/hook'')
   \<and> NewClient ''https://discord.com/api/webhooks/1/abc''
       = Inr \<lparr>webhookURL = ''https://discord.com/api/webhooks/1/abc''\<rparr>
   \<and> \<not> HasPrefix ''http://example.com/hook'' webhook_prefix
   \<and> HasPrefix ''https://discord.com/api/webhooks/1/abc'' webhook_prefix"
proof -
  have a: "\<not> HasPrefix ''http://example.com/hook'' webhook_prefix"
    by (simp add: HasPrefix_def webhook_prefix_def)
  have b: "HasPrefix ''https://discord.com/api/webhooks/1/abc'' webhook_prefix"
    by (simp add: HasPrefix_def webhook_prefix_def)
  from a NewClient_accepts_iff_prefix [of "''http://example.com/hook''" "[]"]
  have "isl (NewClient ''http://example.com/hook'')" by blast
  moreover from b NewClient_accepts_iff_prefix [of "''https://discord.com/api/webhooks/1/abc''" "[]"]
  have "NewClient ''https://discord.com/api/webhooks/1/abc''
       = Inr \<lparr>webhookURL = ''https://discord.com/api/webhooks/1/abc''\<rparr>" by blast
  ultimately show ?thesis using a b by blast
qed

end
